theory Spec2Isabelle
  imports Main "HOL-Library.Multiset"
begin

section \<open>Earnings date fetcher: the resolver \<^verbatim>\<open>fetch_from_yf\<close> of app.py\<close>

text \<open>
  The program is one Python script. Its core is \<^verbatim>\<open>fetch_from_yf\<close> (one symbol: two
  query strategies against the data provider, normalisation of the candidate dates,
  choice of the next date, packaging of a result record) and the script body that
  cleans the uploaded symbols, runs the resolver over them on a thread pool and
  joins the results back onto the uploaded rows.

  The provider (yfinance) and the table library (pandas) are not part of the
  repository, and the repository pins no version of either. Their answers are data
  of the model (what a call returned, or that it raised), and the library functions
  the code applies to candidate values are taken as parameters, collected in the
  record \<open>library\<close>; the general theorems below hold for every such library, and
  the concrete runs use the example libraries of the section on example inputs. A
  raised exception is the sum value \<open>Inl msg\<close>, the message being what
  \<^verbatim>\<open>str(e)\<close> gives; the messages of exceptions that the code swallows are never
  looked at.
\<close>

subsection \<open>Values of the provider and of the library\<close>

type_synonym exn = string

text \<open>An instant: a timezone-aware UTC \<^verbatim>\<open>datetime\<close>, as its number of microseconds
  since the epoch. Python compares and hashes such values by that number.\<close>

type_synonym instant = int

text \<open>What the conversion of line 115 gives when it does not raise: an instant, or
  the not-a-time marker \<^verbatim>\<open>NaT\<close> of pandas, which \<^verbatim>\<open>pd.to_datetime\<close> returns for a
  missing value (and for the empty string) and \<^verbatim>\<open>to_pydatetime\<close> hands back
  unchanged. \<^verbatim>\<open>NaT\<close> is one object; every order comparison with it is \<^verbatim>\<open>False\<close>,
  and its \<^verbatim>\<open>isoformat()\<close> is the text \<^verbatim>\<open>NaT\<close>.\<close>

datatype stamp = At instant | NaT

text \<open>A row or column label of a data frame: a string, or any other object
  (on which \<^verbatim>\<open>c.lower()\<close> raises).\<close>

datatype label = Name string | Other_label

datatype 'c index = DatetimeIndex "'c list" | Index "label list"

text \<open>A data frame: its index and its columns, each column a label with its cells
  (type \<open>'c\<close>: the raw date-like values, of unknown shape).\<close>

record 'c frame =
  index :: "'c index"
  columns :: "(label \<times> 'c list) list"

text \<open>What a provider call returned: \<^verbatim>\<open>None\<close>, a \<^verbatim>\<open>DataFrame\<close>, or some other object.\<close>

datatype 'c obj = PyNone | DataFrame "'c frame" | Other_obj

text \<open>The ticker object \<^verbatim>\<open>t\<close>: what each of its two queries does when it is made.\<close>

record 'c ticker =
  get_earnings_dates :: "exn + 'c obj"
  calendar :: "exn + 'c obj"

text \<open>The library functions applied to raw values, one field per call of the source:
  \<^item> \<open>to_datetime_utc\<close>: \<^verbatim>\<open>pd.to_datetime(d, utc=True).to_pydatetime()\<close> (line 115);
  \<^item> \<open>to_datetime\<close>: \<^verbatim>\<open>pd.to_datetime(val)\<close> (line 91);
  \<^item> \<open>to_datetime_coerce\<close>: \<^verbatim>\<open>pd.to_datetime(x, errors="coerce")\<close> (line 96);
  \<^item> \<open>notna\<close>: \<^verbatim>\<open>pd.notna(x)\<close> used as a condition (line 97);
  \<^item> \<open>coerce_dropna\<close>: \<^verbatim>\<open>pd.to_datetime(col, errors="coerce").dropna().to_list()\<close>
    on the cells of a column (lines 73 and 104);
  \<^item> \<open>is_timestamp\<close>: \<^verbatim>\<open>isinstance(val, (pd.Timestamp, datetime))\<close> (line 90);
  \<^item> \<open>iter_list\<close>: \<open>None\<close> when the value has no \<^verbatim>\<open>__iter__\<close>, otherwise what
    \<^verbatim>\<open>list(val)\<close> does (line 95);
  \<^item> \<open>isoformat\<close>: \<^verbatim>\<open>next_dt.isoformat()\<close> of an instant (line 127);
  \<^item> \<open>astype_str_keeps_missing\<close>: what \<^verbatim>\<open>.astype(str)\<close> does with a missing value
    (lines 166 and 194): pandas 3 leaves it missing, earlier versions convert it
    like every other value, with \<^verbatim>\<open>str\<close>.\<close>

record 'c library =
  to_datetime_utc :: "'c \<Rightarrow> exn + stamp"
  to_datetime :: "'c \<Rightarrow> exn + 'c"
  to_datetime_coerce :: "'c \<Rightarrow> exn + 'c"
  notna :: "'c \<Rightarrow> exn + bool"
  coerce_dropna :: "'c list \<Rightarrow> exn + 'c list"
  is_timestamp :: "'c \<Rightarrow> bool"
  iter_list :: "'c \<Rightarrow> (exn + 'c list) option"
  isoformat :: "instant \<Rightarrow> string"
  astype_str_keeps_missing :: bool

text \<open>The world one resolution runs in: what \<^verbatim>\<open>yf.Ticker(symbol)\<close> does, what
  \<^verbatim>\<open>datetime.now(timezone.utc)\<close> reads during the resolution of that symbol, and
  the arrangement in which \<^verbatim>\<open>sorted(set(clean))\<close> leaves elements it cannot order
  (see \<open>sorted_set\<close> below).\<close>

record 'c world =
  Ticker :: "string \<Rightarrow> exn + 'c ticker"
  utcnow :: "string \<Rightarrow> instant"
  arrangement :: "string \<Rightarrow> nat list"

text \<open>The result dictionary; \<open>None\<close> is Python's \<^verbatim>\<open>None\<close>.\<close>

record result =
  Symbol :: string
  NextEarningsDate :: "string option"
  Source :: "string option"
  Details :: "string option"
  Error :: "string option"

text \<open>The provider queries a resolution makes, in the order it makes them.\<close>

datatype query = Query_get_earnings_dates | Query_calendar

subsection \<open>Strings\<close>


definition lower_char :: "char \<Rightarrow> char" where
  "lower_char c =
     (let n = (of_char c :: nat) in if 65 \<le> n \<and> n \<le> 90 then char_of (n + 32) else c)"

definition upper_char :: "char \<Rightarrow> char" where
  "upper_char c =
     (let n = (of_char c :: nat) in if 97 \<le> n \<and> n \<le> 122 then char_of (n - 32) else c)"

definition lower :: "string \<Rightarrow> string" where
  "lower s = map lower_char s"

definition upper :: "string \<Rightarrow> string" where
  "upper s = map upper_char s"

text \<open>\<^verbatim>\<open>sub in s\<close> on strings.\<close>

fun contains :: "string \<Rightarrow> string \<Rightarrow> bool" where
  "contains sub [] = (sub = [])"
| "contains sub (c # cs) = (take (length sub) (c # cs) = sub \<or> contains sub cs)"

text \<open>\<^verbatim>\<open>str(n)\<close> for a natural number.\<close>

definition digit_char :: "nat \<Rightarrow> char" where
  "digit_char d = char_of (48 + d)"

fun str_nat :: "nat \<Rightarrow> string" where
  "str_nat n = (if n < 10 then [digit_char n] else str_nat (n div 10) @ [digit_char (n mod 10)])"

declare str_nat.simps [simp del]

text \<open>\<^verbatim>\<open>s.strip()\<close>: leading and trailing whitespace removed.\<close>

definition is_space :: "char \<Rightarrow> bool" where
  "is_space c = ((of_char c :: nat) \<in> {9, 10, 11, 12, 13, 28, 29, 30, 31, 32})"

definition strip :: "string \<Rightarrow> string" where
  "strip s = rev (dropWhile is_space (rev (dropWhile is_space s)))"

subsection \<open>Orders the program does not control\<close>

text \<open>Two orders are decided outside the program: the order in which the futures
  of the thread pool complete, and the arrangement \<^verbatim>\<open>sorted\<close> leaves when its
  comparisons do not order the elements. Such an order is a parameter: a list of
  numbers, each choosing which of the remaining elements comes next (when the
  list runs out the rest keep their order). Every arrangement of the elements can
  be chosen, and nothing but an arrangement.\<close>

fun arrange :: "nat list \<Rightarrow> 'a list \<Rightarrow> 'a list" where
  "arrange [] pending = pending"
| "arrange (k # ks) pending =
     (if pending = [] then []
      else (let i = k mod length pending
            in pending ! i # arrange ks (take i pending @ drop (Suc i) pending)))"

subsection \<open>Strategy 1: \<^verbatim>\<open>get_earnings_dates\<close> (lines 58 to 80)\<close>

text \<open>\<^verbatim>\<open>len(df)\<close>: the length of the index.\<close>

definition len :: "'c frame \<Rightarrow> nat" where
  "len df = (case index df of DatetimeIndex ds \<Rightarrow> length ds | Index ls \<Rightarrow> length ls)"

text \<open>Lines 67 to 71: the first column whose lower-cased label contains \<^verbatim>\<open>date\<close>;
  a label that is not a string raises on \<^verbatim>\<open>.lower()\<close>. The result is the cells
  \<^verbatim>\<open>df[date_col]\<close> of the column found.\<close>

fun find_date_col :: "(label \<times> 'c list) list \<Rightarrow> exn + 'c list option" where
  "find_date_col [] = Inr None"
| "find_date_col ((Other_label, cells) # cs) = Inl ''object has no attribute lower''"
| "find_date_col ((Name c, cells) # cs) =
     (if contains ''date'' (lower c) then Inr (Some cells) else find_date_col cs)"

text \<open>The first \<^verbatim>\<open>try\<close> block. It starts from \<^verbatim>\<open>dt_candidates = []\<close> and
  \<^verbatim>\<open>used = None\<close> and returns the two variables as the block leaves them. Both are
  assigned on lines 76 and 77 only, so an exception anywhere before leaves them
  as they were.\<close>

definition try_get_earnings_dates ::
    "'c library \<Rightarrow> 'c ticker \<Rightarrow> 'c list \<times> string option" where
  "try_get_earnings_dates lib t =
     (case get_earnings_dates t of
        Inl e \<Rightarrow> ([], None)
      | Inr PyNone \<Rightarrow> ([], None)
      | Inr Other_obj \<Rightarrow> ([], None)
      | Inr (DataFrame df) \<Rightarrow>
          if len df > 0 then
            (case index df of
               DatetimeIndex ds \<Rightarrow> (ds, Some ''get_earnings_dates'')
             | Index ls \<Rightarrow>
                 (case find_date_col (columns df) of
                    Inl e \<Rightarrow> ([], None)
                  | Inr None \<Rightarrow> ([], Some ''get_earnings_dates'')
                  | Inr (Some cells) \<Rightarrow>
                      (case coerce_dropna lib cells of
                         Inl e \<Rightarrow> ([], None)
                       | Inr dates \<Rightarrow> (dates, Some ''get_earnings_dates''))))
          else ([], None))"

subsection \<open>Strategy 2: the legacy \<^verbatim>\<open>calendar\<close> (lines 82 to 108)\<close>

text \<open>\<^verbatim>\<open>cal.empty\<close>: an axis of length 0.\<close>

definition empty_frame :: "'c frame \<Rightarrow> bool" where
  "empty_frame df = (len df = 0 \<or> columns df = [])"

text \<open>\<^verbatim>\<open>"Earnings Date" in cal.index\<close> and \<^verbatim>\<open>"Earnings Date" in cal.columns\<close>.\<close>

definition in_index :: "string \<Rightarrow> 'c frame \<Rightarrow> bool" where
  "in_index s df = (case index df of DatetimeIndex ds \<Rightarrow> False | Index ls \<Rightarrow> Name s \<in> set ls)"

definition in_columns :: "string \<Rightarrow> 'c frame \<Rightarrow> bool" where
  "in_columns s df = (Name s \<in> set (map fst (columns df)))"

text \<open>\<^verbatim>\<open>cal["Earnings Date"]\<close>: the cells of the column with that label (asked
  only when the label is among the columns).\<close>

definition column_cells :: "string \<Rightarrow> 'c frame \<Rightarrow> 'c list" where
  "column_cells s df = (case map_of (columns df) (Name s) of None \<Rightarrow> [] | Some cells \<Rightarrow> cells)"

text \<open>The position of the first occurrence of a label.\<close>

fun position :: "'a \<Rightarrow> 'a list \<Rightarrow> nat option" where
  "position x [] = None"
| "position x (y # ys) = (if x = y then Some 0 else map_option Suc (position x ys))"

text \<open>\<^verbatim>\<open>cells[i]\<close>, an \<^verbatim>\<open>IndexError\<close> out of range.\<close>

definition nth_raising :: "'a list \<Rightarrow> nat \<Rightarrow> exn + 'a" where
  "nth_raising xs i = (if i < length xs then Inr (xs ! i) else Inl ''index out of bounds'')"

text \<open>A list comprehension whose element expression may raise, and a filtering one
  whose condition may raise: the first exception ends the comprehension.\<close>

fun map_raising :: "('a \<Rightarrow> exn + 'b) \<Rightarrow> 'a list \<Rightarrow> exn + 'b list" where
  "map_raising f [] = Inr []"
| "map_raising f (x # xs) =
     (case f x of
        Inl e \<Rightarrow> Inl e
      | Inr y \<Rightarrow> (case map_raising f xs of Inl e \<Rightarrow> Inl e | Inr ys \<Rightarrow> Inr (y # ys)))"

fun filter_raising :: "('a \<Rightarrow> exn + bool) \<Rightarrow> 'a list \<Rightarrow> exn + 'a list" where
  "filter_raising p [] = Inr []"
| "filter_raising p (x # xs) =
     (case p x of
        Inl e \<Rightarrow> Inl e
      | Inr b \<Rightarrow>
          (case filter_raising p xs of
             Inl e \<Rightarrow> Inl e
           | Inr ys \<Rightarrow> Inr (if b then x # ys else ys)))"

text \<open>\<^verbatim>\<open>val = cal.loc["Earnings Date"].values[0]\<close> (line 89). When one row has the
  label, \<^verbatim>\<open>cal.loc[...]\<close> is that row and \<^verbatim>\<open>val\<close> is its cell in the first column.
  When several rows have it, \<^verbatim>\<open>cal.loc[...]\<close> is the frame of those rows and \<^verbatim>\<open>val\<close>
  is the first of them, an array of its cells in all columns. A \<^verbatim>\<open>KeyError\<close>
  (its message the label) when no row has the label, an \<^verbatim>\<open>IndexError\<close> when a
  cell is not there.\<close>

datatype 'c loc_value = Cell 'c | Row_values "'c list"

definition loc_first :: "string \<Rightarrow> 'c frame \<Rightarrow> exn + 'c loc_value" where
  "loc_first s df =
     (case index df of
        DatetimeIndex ds \<Rightarrow> Inl s
      | Index ls \<Rightarrow>
          (case position (Name s) ls of
             None \<Rightarrow> Inl s
           | Some i \<Rightarrow>
               if length (filter (\<lambda>l. l = Name s) ls) = 1 then
                 (case columns df of
                    [] \<Rightarrow> Inl ''index 0 is out of bounds''
                  | (l, cells) # cs \<Rightarrow>
                      (case nth_raising cells i of Inl e \<Rightarrow> Inl e | Inr val \<Rightarrow> Inr (Cell val)))
               else
                 (case map_raising (\<lambda>(l, cells). nth_raising cells i) (columns df) of
                    Inl e \<Rightarrow> Inl e
                  | Inr vals \<Rightarrow> Inr (Row_values vals))))"

text \<open>Line 90, \<^verbatim>\<open>isinstance(val, (pd.Timestamp, datetime))\<close>: the value when the test
  holds; an array is neither.\<close>

definition timestamp_of :: "'c library \<Rightarrow> 'c loc_value \<Rightarrow> 'c option" where
  "timestamp_of lib val =
     (case val of
        Cell v \<Rightarrow> if is_timestamp lib v then Some v else None
      | Row_values vs \<Rightarrow> None)"

text \<open>Lines 95 to 97, the body of the innermost \<^verbatim>\<open>try\<close>; an array is iterable and
  \<^verbatim>\<open>list\<close> gives its elements.\<close>

definition earnings_seq :: "'c library \<Rightarrow> 'c loc_value \<Rightarrow> exn + 'c list" where
  "earnings_seq lib val =
     (case (case val of
              Cell v \<Rightarrow> (case iter_list lib v of None \<Rightarrow> Inr [v] | Some r \<Rightarrow> r)
            | Row_values vs \<Rightarrow> Inr vs) of
        Inl e \<Rightarrow> Inl e
      | Inr seq \<Rightarrow>
          (case map_raising (to_datetime_coerce lib) seq of
             Inl e \<Rightarrow> Inl e
           | Inr seq' \<Rightarrow> filter_raising (notna lib) seq'))"

text \<open>The second \<^verbatim>\<open>try\<close> block (lines 84 to 108), entered with the variables as the
  first block left them. An exception leaves them as they are at that point; the
  innermost \<^verbatim>\<open>except\<close> (line 99) only skips the assignment of line 98, line 101
  still runs.\<close>

definition try_calendar ::
    "'c library \<Rightarrow> 'c ticker \<Rightarrow> 'c list \<times> string option \<Rightarrow> 'c list \<times> string option" where
  "try_calendar lib t st =
     (case calendar t of
        Inl e \<Rightarrow> st
      | Inr PyNone \<Rightarrow> st
      | Inr Other_obj \<Rightarrow> st
      | Inr (DataFrame cal) \<Rightarrow>
          if \<not> empty_frame cal then
            if in_index ''Earnings Date'' cal then
              (case loc_first ''Earnings Date'' cal of
                 Inl e \<Rightarrow> st
               | Inr val \<Rightarrow>
                   (case timestamp_of lib val of
                      Some v \<Rightarrow>
                        (case to_datetime lib v of
                           Inl e \<Rightarrow> st
                         | Inr v' \<Rightarrow> ([v'], Some ''calendar:index''))
                    | None \<Rightarrow>
                        (case earnings_seq lib val of
                           Inl e \<Rightarrow> (fst st, Some ''calendar:index'')
                         | Inr seq \<Rightarrow> (seq, Some ''calendar:index''))))
            else if in_columns ''Earnings Date'' cal then
              (case coerce_dropna lib (column_cells ''Earnings Date'' cal) of
                 Inl e \<Rightarrow> st
               | Inr dates \<Rightarrow> (dates, Some ''calendar:column''))
            else st
          else st)"

text \<open>Lines 55 to 108: both strategies in their order. The third component lists
  the provider queries made. The calendar is asked only under
  \<^verbatim>\<open>if not dt_candidates\<close> (line 83).\<close>

definition strategies ::
    "'c library \<Rightarrow> 'c ticker \<Rightarrow> 'c list \<times> string option \<times> query list" where
  "strategies lib t =
     (let st = try_get_earnings_dates lib t in
      if fst st = [] then
        (let st' = try_calendar lib t st
         in (fst st', snd st', [Query_get_earnings_dates, Query_calendar]))
      else (fst st, snd st, [Query_get_earnings_dates]))"

subsection \<open>Normalise and choose (lines 110 to 131)\<close>

text \<open>Lines 112 to 118: the loop over \<^verbatim>\<open>dt_candidates\<close>. A candidate whose
  conversion raises is skipped by \<^verbatim>\<open>continue\<close>; whatever the conversion returns
  is appended, \<^verbatim>\<open>NaT\<close> included.\<close>

fun normalize_loop :: "'c library \<Rightarrow> 'c list \<Rightarrow> stamp list \<Rightarrow> stamp list" where
  "normalize_loop lib [] clean = clean"
| "normalize_loop lib (d # ds) clean =
     (case to_datetime_utc lib d of
        Inr ts \<Rightarrow> normalize_loop lib ds (clean @ [ts])
      | Inl e \<Rightarrow> normalize_loop lib ds clean)"

text \<open>The instants of a list.\<close>

fun instants :: "stamp list \<Rightarrow> instant list" where
  "instants [] = []"
| "instants (At t # ds) = t # instants ds"
| "instants (NaT # ds) = instants ds"

text \<open>Line 119, \<^verbatim>\<open>sorted(set(clean))\<close>. The set holds every element once. When all
  elements are instants, \<^verbatim>\<open>sorted\<close> gives them in ascending order. When \<^verbatim>\<open>NaT\<close> is
  among them, every comparison with it is \<^verbatim>\<open>False\<close> and what \<^verbatim>\<open>sorted\<close> gives is an
  arrangement of the elements that depends on the iteration order of the set and
  on the steps of the sort, which the program does not control: the arrangement
  \<open>arr\<close> is a parameter.\<close>

definition sorted_set :: "nat list \<Rightarrow> stamp list \<Rightarrow> stamp list" where
  "sorted_set arr xs =
     (if NaT \<in> set xs then arrange arr (remdups xs)
      else map At (sort (remdups (instants xs))))"

definition clean_candidates :: "'c library \<Rightarrow> nat list \<Rightarrow> 'c list \<Rightarrow> stamp list" where
  "clean_candidates lib arr dt_candidates = sorted_set arr (normalize_loop lib dt_candidates [])"

text \<open>\<^verbatim>\<open>d >= now\<close> (line 123).\<close>

definition not_before :: "instant \<Rightarrow> stamp \<Rightarrow> bool" where
  "not_before now d = (case d of At t \<Rightarrow> t \<ge> now | NaT \<Rightarrow> False)"

text \<open>Lines 121 to 124.\<close>

definition choose_next :: "instant \<Rightarrow> stamp list \<Rightarrow> stamp option" where
  "choose_next now clean =
     (if clean \<noteq> [] then
        (let future = filter (not_before now) clean
         in Some (if future \<noteq> [] then hd future else last clean))
      else None)"

text \<open>\<^verbatim>\<open>next_dt.isoformat()\<close> (line 127).\<close>

definition stamp_isoformat :: "'c library \<Rightarrow> stamp \<Rightarrow> string" where
  "stamp_isoformat lib d = (case d of At t \<Rightarrow> isoformat lib t | NaT \<Rightarrow> ''NaT'')"

text \<open>\<^verbatim>\<open>used or "yfinance"\<close>.\<close>

definition used_or :: "string option \<Rightarrow> string \<Rightarrow> string" where
  "used_or used dflt = (case used of None \<Rightarrow> dflt | Some u \<Rightarrow> if u = [] then dflt else u)"

text \<open>Lines 44 to 50: the result as it is initialised.\<close>

definition initial_result :: "string \<Rightarrow> result" where
  "initial_result symbol =
     \<lparr>Symbol = symbol, NextEarningsDate = None, Source = None, Details = None, Error = None\<rparr>"

text \<open>Lines 110 to 131, from the candidates and the tag the strategies left.\<close>

definition package ::
    "'c library \<Rightarrow> nat list \<Rightarrow> instant \<Rightarrow> string \<Rightarrow> 'c list \<Rightarrow> string option \<Rightarrow> result" where
  "package lib arr now symbol dt_candidates used =
     (let clean = clean_candidates lib arr dt_candidates in
      case choose_next now clean of
        Some next_dt \<Rightarrow>
          (initial_result symbol)
            \<lparr>NextEarningsDate := Some (stamp_isoformat lib next_dt),
             Source := Some (used_or used ''yfinance''),
             Details := Some (''candidates='' @ str_nat (length clean))\<rparr>
      | None \<Rightarrow>
          (initial_result symbol)\<lparr>Error := Some ''No date found via yfinance endpoints''\<rparr>)"

text \<open>The whole function. The outer \<^verbatim>\<open>except\<close> (line 133) records the message of an
  exception that leaves the \<^verbatim>\<open>try\<close> body; in the model that is
  \<^verbatim>\<open>yf.Ticker(symbol)\<close> raising, every other raising call being inside a
  \<^verbatim>\<open>try\<close> of its own. The cache decorator is left out: within one run every
  symbol is resolved once.\<close>

definition fetch_from_yf :: "'c library \<Rightarrow> 'c world \<Rightarrow> string \<Rightarrow> result" where
  "fetch_from_yf lib w symbol =
     (case Ticker w symbol of
        Inl e \<Rightarrow> (initial_result symbol)\<lparr>Error := Some e\<rparr>
      | Inr t \<Rightarrow>
          (case strategies lib t of
             (dt_candidates, used, queries) \<Rightarrow>
               package lib (arrangement w symbol) (utcnow w symbol) symbol dt_candidates used))"

text \<open>The provider queries that one call of \<^verbatim>\<open>fetch_from_yf\<close> makes.\<close>

definition queries_made :: "'c library \<Rightarrow> 'c world \<Rightarrow> string \<Rightarrow> query list" where
  "queries_made lib w symbol =
     (case Ticker w symbol of
        Inl e \<Rightarrow> []
      | Inr t \<Rightarrow> snd (snd (strategies lib t)))"

section \<open>The script body: clean the symbols, fetch, merge (lines 153 to 199)\<close>

subsection \<open>The uploaded table\<close>

text \<open>A cell of the uploaded sheet or of the merged table: a string, a missing value
  (\<^verbatim>\<open>NaN\<close>, \<^verbatim>\<open>None\<close>), or another object, given by its \<^verbatim>\<open>str()\<close>.\<close>

datatype cell = Text string | NaN | Other_cell string

text \<open>A row maps column labels to cells, in column order. A table has its column
  labels (\<^verbatim>\<open>raw.columns\<close>) and its rows in order.\<close>

type_synonym row = "(string \<times> cell) list"

record table =
  header :: "string list"
  rows :: "row list"

definition cell_of :: "row \<Rightarrow> string \<Rightarrow> cell" where
  "cell_of r c = (case map_of r c of None \<Rightarrow> NaN | Some v \<Rightarrow> v)"

text \<open>\<^verbatim>\<open>raw[c]\<close>: the cells of a column, in row order.\<close>

definition column :: "table \<Rightarrow> string \<Rightarrow> cell list" where
  "column t c = map (\<lambda>r. cell_of r c) (rows t)"

text \<open>\<^verbatim>\<open>.astype(str)\<close> converts a value with \<^verbatim>\<open>str\<close>; \<^verbatim>\<open>str\<close> of the float
  \<^verbatim>\<open>nan\<close> is the text \<^verbatim>\<open>nan\<close>. Whether a missing value is converted at all is the
  library's \<open>astype_str_keeps_missing\<close>: \<open>converted\<close> says which cells come out
  of \<^verbatim>\<open>.astype(str)\<close> as text, the others stay missing through \<^verbatim>\<open>.str.strip()\<close>
  and \<^verbatim>\<open>.str.upper()\<close>.\<close>

fun astype_str :: "cell \<Rightarrow> string" where
  "astype_str (Text s) = s"
| "astype_str NaN = ''nan''"
| "astype_str (Other_cell s) = s"

definition converted :: "'c library \<Rightarrow> cell \<Rightarrow> bool" where
  "converted lib c = (case c of NaN \<Rightarrow> \<not> astype_str_keeps_missing lib | Text s \<Rightarrow> True
                      | Other_cell s \<Rightarrow> True)"

text \<open>\<^verbatim>\<open>.unique()\<close>: the distinct values in the order of their first appearance
  (\<open>remdups\<close> keeps the last occurrence of each value, hence the two reversals).\<close>

definition unique :: "'a list \<Rightarrow> 'a list" where
  "unique xs = rev (remdups (rev xs))"

text \<open>Lines 165 to 167:
  \<^verbatim>\<open>raw["Symbol"].astype(str).str.strip().str.upper().replace({"": pd.NA}).dropna().unique().tolist()\<close>.
  \<open>clean_symbol\<close> is the text of a cell that is converted; \<^verbatim>\<open>dropna\<close> drops the
  cells that stayed missing along with the blank ones.\<close>

definition clean_symbol :: "cell \<Rightarrow> string" where
  "clean_symbol c = upper (strip (astype_str c))"

definition symbols_of :: "'c library \<Rightarrow> table \<Rightarrow> string list" where
  "symbols_of lib raw =
     unique (filter (\<lambda>s. s \<noteq> [])
       (map clean_symbol (filter (converted lib) (column raw ''Symbol''))))"

subsection \<open>The thread pool (lines 181 to 188)\<close>

text \<open>\<^verbatim>\<open>as_completed\<close> yields the submitted futures in the order they finish, which the
  program does not control: the schedule \<open>sched\<close> is a parameter.\<close>

definition as_completed :: "nat list \<Rightarrow> 'a list \<Rightarrow> 'a list" where
  "as_completed sched pending = arrange sched pending"

text \<open>One future per symbol (line 182); \<^verbatim>\<open>out_rows\<close> collects each result as its
  future completes (lines 183 to 185). The progress bar and the status line
  (lines 186 to 188) only display.\<close>

definition fetch_all :: "'c library \<Rightarrow> 'c world \<Rightarrow> nat list \<Rightarrow> string list \<Rightarrow> result list" where
  "fetch_all lib w sched symbols = map (fetch_from_yf lib w) (as_completed sched symbols)"

subsection \<open>The merge (lines 190 to 199)\<close>

definition opt_cell :: "string option \<Rightarrow> cell" where
  "opt_cell v = (case v of None \<Rightarrow> NaN | Some s \<Rightarrow> Text s)"

definition result_columns :: "string list" where
  "result_columns = [''NextEarningsDate'', ''Source'', ''Details'', ''Error'']"

text \<open>One row of \<^verbatim>\<open>out_map\<close>: the four result columns of a result.\<close>

definition result_cells :: "result \<Rightarrow> row" where
  "result_cells r =
     [(''NextEarningsDate'', opt_cell (NextEarningsDate r)),
      (''Source'', opt_cell (Source r)),
      (''Details'', opt_cell (Details r)),
      (''Error'', opt_cell (Error r))]"

text \<open>The cells a left join gives a key without a match.\<close>

definition absent_cells :: row where
  "absent_cells = map (\<lambda>c. (c, NaN)) result_columns"

text \<open>Assigning a cell in a row: in place when the label is there, at the end
  otherwise; and removing a label.\<close>

fun set_cell :: "string \<Rightarrow> cell \<Rightarrow> row \<Rightarrow> row" where
  "set_cell c v [] = [(c, v)]"
| "set_cell c v ((c', v') # r) = (if c' = c then (c, v) # r else (c', v') # set_cell c v r)"

definition drop_cell :: "string \<Rightarrow> row \<Rightarrow> row" where
  "drop_cell c r = filter (\<lambda>(c', v). c' \<noteq> c) r"

text \<open>Line 194, \<^verbatim>\<open>merged[c] = values\<close>: a new column goes last, an existing one is
  overwritten.\<close>

definition set_column :: "string \<Rightarrow> cell list \<Rightarrow> table \<Rightarrow> table" where
  "set_column c vs t =
     \<lparr>header = (if c \<in> set (header t) then header t else header t @ [c]),
      rows = map (\<lambda>(r, v). set_cell c v r) (zip (rows t) vs)\<rparr>"

text \<open>Line 199, \<^verbatim>\<open>merged.drop(columns=[c])\<close>.\<close>

definition drop_column :: "string \<Rightarrow> table \<Rightarrow> table" where
  "drop_column c t =
     \<lparr>header = filter (\<lambda>c'. c' \<noteq> c) (header t), rows = map (drop_cell c) (rows t)\<rparr>"

text \<open>The exceptions of the merge, by their class; nothing catches them.\<close>

datatype failure = KeyError | ValueError

text \<open>Line 198, \<^verbatim>\<open>merged.join(out_map, on=key)\<close>, a left join on the key column
  against the index of \<^verbatim>\<open>out_map\<close> (the \<^verbatim>\<open>Symbol\<close> of each result): every left row,
  in order, once per matching result, or once with absent cells when none
  matches. The join raises a \<^verbatim>\<open>ValueError\<close> when a left column has the name of a
  result column.\<close>

definition join_row :: "string \<Rightarrow> result list \<Rightarrow> row \<Rightarrow> row list" where
  "join_row key out_rows r =
     (case filter (\<lambda>res. cell_of r key = Text (Symbol res)) out_rows of
        [] \<Rightarrow> [r @ absent_cells]
      | m # ms \<Rightarrow> map (\<lambda>res. r @ result_cells res) (m # ms))"

definition join :: "string \<Rightarrow> result list \<Rightarrow> table \<Rightarrow> failure + table" where
  "join key out_rows t =
     (if filter (\<lambda>c. c \<in> set result_columns) (header t) \<noteq> [] then Inl ValueError
      else
        Inr \<lparr>header = header t @ result_columns,
             rows = concat (map (join_row key out_rows) (rows t))\<rparr>)"

text \<open>The join key of a row, line 194: \<^verbatim>\<open>merged["Symbol"].astype(str).str.upper()\<close>.
  \<open>join_key\<close> is the key of a row whose \<^verbatim>\<open>Symbol\<close> cell is converted; the key of
  a cell that stayed missing is missing.\<close>

definition join_key :: "row \<Rightarrow> string" where
  "join_key r = upper (astype_str (cell_of r ''Symbol''))"

definition key_cell :: "'c library \<Rightarrow> row \<Rightarrow> cell" where
  "key_cell lib r = (if converted lib (cell_of r ''Symbol'') then Text (join_key r) else NaN)"

text \<open>Lines 190 to 199. \<^verbatim>\<open>pd.DataFrame([])\<close> has no \<^verbatim>\<open>Symbol\<close> column to index by
  (a \<^verbatim>\<open>KeyError\<close>); the run never merges an empty \<^verbatim>\<open>out_rows\<close>.\<close>

definition merge :: "'c library \<Rightarrow> table \<Rightarrow> result list \<Rightarrow> failure + table" where
  "merge lib raw out_rows =
     (if out_rows = [] then Inl KeyError
      else
        (let merged = set_column ''_SYMBOL_UPPER_'' (map (key_cell lib) (rows raw)) raw
         in case join ''_SYMBOL_UPPER_'' out_rows merged of
              Inl e \<Rightarrow> Inl e
            | Inr merged' \<Rightarrow> Inr (drop_column ''_SYMBOL_UPPER_'' merged')))"

subsection \<open>The run (lines 153 to 199)\<close>

text \<open>What the page shows in its message boxes (\<^verbatim>\<open>st.error\<close>, \<^verbatim>\<open>st.warning\<close>,
  \<^verbatim>\<open>st.info\<close>), and how a run ends: stopped by \<^verbatim>\<open>st.stop()\<close>, by an exception
  nothing catches, or with the merged table shown.\<close>

datatype message = Error_box string | Warning_box string | Info_box string

datatype outcome = Stopped | Raised failure | Shown table

text \<open>A run: the messages in order, the symbols submitted to the pool in order, and
  the outcome.\<close>

record report =
  messages :: "message list"
  submitted :: "string list"
  outcome :: outcome

text \<open>The argument \<open>upload\<close> is what \<^verbatim>\<open>pd.read_excel(uploaded)\<close> does. The last
  character of the info message is an ellipsis, given by its UTF-8 bytes.\<close>

definition run :: "'c library \<Rightarrow> 'c world \<Rightarrow> nat list \<Rightarrow> exn + table \<Rightarrow> report" where
  "run lib w sched upload =
     (case upload of
        Inl e \<Rightarrow>
          \<lparr>messages = [Error_box (''Failed to read Excel: '' @ e)], submitted = [],
           outcome = Stopped\<rparr>
      | Inr raw \<Rightarrow>
          if ''Symbol'' \<notin> set (header raw) then
            \<lparr>messages = [Error_box ''The uploaded file must contain a 'Symbol' column.''],
             submitted = [], outcome = Stopped\<rparr>
          else
            (let symbols = symbols_of lib raw in
             if symbols = [] then
               \<lparr>messages = [Warning_box ''No symbols found after cleaning.''],
                submitted = [], outcome = Stopped\<rparr>
             else
               (let out_rows = fetch_all lib w sched symbols in
                \<lparr>messages =
                   [Info_box (''Processing '' @ str_nat (length symbols) @ '' symbols''
                      @ [CHR 0xE2, CHR 0x80, CHR 0xA6])],
                 submitted = symbols,
                 outcome = (case merge lib raw out_rows of Inl e \<Rightarrow> Raised e | Inr m \<Rightarrow> Shown m)\<rparr>)))"

section \<open>Example inputs\<close>

text \<open>A small library for concrete runs. Raw values are timestamps, strings,
  \<^verbatim>\<open>None\<close> or \<^verbatim>\<open>NaT\<close>. A timestamp converts unless it lies outside the range pandas
  can hold in nanoseconds; a string converts when it is one of the dates listed,
  the empty string gives \<^verbatim>\<open>NaT\<close> and any other string raises; \<^verbatim>\<open>NaT\<close> gives
  \<^verbatim>\<open>NaT\<close>; \<^verbatim>\<open>None\<close> gives \<^verbatim>\<open>None\<close>, which has no \<^verbatim>\<open>to_pydatetime\<close>. With
  \<^verbatim>\<open>errors="coerce"\<close> what does not convert becomes \<^verbatim>\<open>NaT\<close>.\<close>

datatype raw = Stamp instant | Str string | Null | Not_a_time

definition example_dates :: "(string \<times> instant) list" where
  "example_dates =
     [(''2023-01-10'', 1673308800000000), (''2023-06-15'', 1686787200000000),
      (''2024-01-10'', 1704844800000000), (''2024-06-15'', 1718409600000000)]"

definition in_bounds :: "instant \<Rightarrow> bool" where
  "in_bounds t = (- 9223372036854775 \<le> t \<and> t \<le> 9223372036854775)"

fun example_to_datetime_utc :: "raw \<Rightarrow> exn + stamp" where
  "example_to_datetime_utc (Stamp t) =
     (if in_bounds t then Inr (At t) else Inl ''Out of bounds nanosecond timestamp'')"
| "example_to_datetime_utc (Str s) =
     (if s = [] then Inr NaT
      else (case map_of example_dates s of
              Some t \<Rightarrow> Inr (At t)
            | None \<Rightarrow> Inl (''Unknown datetime string format, unable to parse: '' @ s)))"
| "example_to_datetime_utc Null = Inl ''NoneType object has no attribute to_pydatetime''"
| "example_to_datetime_utc Not_a_time = Inr NaT"

fun example_coerce :: "raw \<Rightarrow> raw" where
  "example_coerce (Stamp t) = (if in_bounds t then Stamp t else Not_a_time)"
| "example_coerce (Str s) =
     (case map_of example_dates s of Some t \<Rightarrow> Stamp t | None \<Rightarrow> Not_a_time)"
| "example_coerce Null = Null"
| "example_coerce Not_a_time = Not_a_time"

fun example_notna :: "raw \<Rightarrow> bool" where
  "example_notna (Stamp t) = True"
| "example_notna (Str s) = True"
| "example_notna Null = False"
| "example_notna Not_a_time = False"

definition example_isoformat :: "instant \<Rightarrow> string" where
  "example_isoformat t =
     (case map_of (map (\<lambda>(d, t'). (t', d)) example_dates) t of
        Some d \<Rightarrow> d @ ''T00:00:00+00:00''
      | None \<Rightarrow> ''instant '' @ str_nat (nat t))"

text \<open>The example library behaves like pandas before version 3 on missing symbols;
  \<open>example_library_3\<close> differs in that alone.\<close>

definition example_library :: "raw library" where
  "example_library =
     \<lparr>to_datetime_utc = example_to_datetime_utc,
      to_datetime = (\<lambda>v. Inr v),
      to_datetime_coerce = (\<lambda>v. Inr (example_coerce v)),
      notna = (\<lambda>v. Inr (example_notna v)),
      coerce_dropna = (\<lambda>cells. Inr (filter example_notna (map example_coerce cells))),
      is_timestamp = (\<lambda>v. case v of Stamp t \<Rightarrow> True | Str s \<Rightarrow> False | Null \<Rightarrow> False
                          | Not_a_time \<Rightarrow> True),
      iter_list = (\<lambda>v. case v of Stamp t \<Rightarrow> None | Str s \<Rightarrow> Some (Inr (map (\<lambda>c. Str [c]) s))
                        | Null \<Rightarrow> None | Not_a_time \<Rightarrow> None),
      isoformat = example_isoformat,
      astype_str_keeps_missing = False\<rparr>"


text \<open>Six tickers. \<^verbatim>\<open>AAPL\<close>: the modern query answers with a datetime index of
  2024-06-15, 2024-01-10 and 2024-06-15 again. \<^verbatim>\<open>IBM\<close>: the modern query answers
  \<^verbatim>\<open>None\<close>, the calendar has an \<^verbatim>\<open>Earnings Date\<close> column with two dates of 2023
  and one unreadable entry. \<^verbatim>\<open>FAR\<close>: the modern query answers with one date of the
  year 3000. \<^verbatim>\<open>VOID\<close>: the modern query answers with a datetime index whose one
  entry is \<^verbatim>\<open>NaT\<close>. \<^verbatim>\<open>GAP\<close>: the index holds 2024-06-15 and \<^verbatim>\<open>NaT\<close>. Any other
  symbol: both queries answer \<^verbatim>\<open>None\<close>.\<close>

definition aapl_ticker :: "raw ticker" where
  "aapl_ticker =
     \<lparr>get_earnings_dates =
        Inr (DataFrame
          \<lparr>index = DatetimeIndex
             [Stamp 1718409600000000, Stamp 1704844800000000, Stamp 1718409600000000],
           columns = [(Name ''EPS Estimate'', [Null, Null, Null])]\<rparr>),
      calendar = Inl ''calendar is not available''\<rparr>"

definition ibm_ticker :: "raw ticker" where
  "ibm_ticker =
     \<lparr>get_earnings_dates = Inr PyNone,
      calendar =
        Inr (DataFrame
          \<lparr>index = Index [Other_label, Other_label, Other_label],
           columns = [(Name ''Earnings Date'', [Str ''2023-06-15'', Str ''N/A'', Str ''2023-01-10''])]\<rparr>)\<rparr>"

definition far_ticker :: "raw ticker" where
  "far_ticker =
     \<lparr>get_earnings_dates =
        Inr (DataFrame
          \<lparr>index = DatetimeIndex [Stamp 32503680000000000],
           columns = [(Name ''EPS Estimate'', [Null])]\<rparr>),
      calendar =
        Inr (DataFrame
          \<lparr>index = Index [Other_label],
           columns = [(Name ''Earnings Date'', [Str ''2024-06-15''])]\<rparr>)\<rparr>"

definition void_ticker :: "raw ticker" where
  "void_ticker =
     \<lparr>get_earnings_dates =
        Inr (DataFrame
          \<lparr>index = DatetimeIndex [Not_a_time],
           columns = [(Name ''EPS Estimate'', [Null])]\<rparr>),
      calendar = Inr PyNone\<rparr>"

definition gap_ticker :: "raw ticker" where
  "gap_ticker =
     \<lparr>get_earnings_dates =
        Inr (DataFrame
          \<lparr>index = DatetimeIndex [Stamp 1718409600000000, Not_a_time],
           columns = [(Name ''EPS Estimate'', [Null, Null])]\<rparr>),
      calendar = Inr PyNone\<rparr>"

definition no_ticker :: "raw ticker" where
  "no_ticker = \<lparr>get_earnings_dates = Inr PyNone, calendar = Inr PyNone\<rparr>"

text \<open>The example world: \<^verbatim>\<open>yf.Ticker("MSFT")\<close> raises with the message \<^verbatim>\<open>X\<close>; the clock
  reads 2024-03-01; elements that cannot be ordered keep the order they have.\<close>

definition example_Ticker :: "string \<Rightarrow> exn + raw ticker" where
  "example_Ticker s =
     (if s = ''AAPL'' then Inr aapl_ticker
      else if s = ''IBM'' then Inr ibm_ticker
      else if s = ''FAR'' then Inr far_ticker
      else if s = ''VOID'' then Inr void_ticker
      else if s = ''GAP'' then Inr gap_ticker
      else if s = ''MSFT'' then Inl ''X''
      else Inr no_ticker)"

definition example_world :: "raw world" where
  "example_world =
     \<lparr>Ticker = example_Ticker, utcnow = (\<lambda>s. 1709251200000000), arrangement = (\<lambda>s. [])\<rparr>"

text \<open>The sheet of the specification's merge example, with a third column.\<close>

definition example_sheet :: table where
  "example_sheet =
     \<lparr>header = [''Symbol'', ''Note''],
      rows = [[(''Symbol'', Text ''aapl''), (''Note'', Text ''a'')],
              [(''Symbol'', Text ''AAPL''), (''Note'', NaN)],
              [(''Symbol'', Text ''msft''), (''Note'', Text ''c'')]]\<rparr>"

text \<open>A sheet whose only symbol has a leading space; a sheet with that row, a
  second row for the same symbol and a column named like the merge's helper
  column; a sheet whose failing symbol has a leading space; a sheet whose symbols
  come with spaces, a tab, a newline and mixed case, beside a blank and an empty
  one; a sheet with a missing \<^verbatim>\<open>Symbol\<close> cell; and one with a missing \<^verbatim>\<open>Symbol\<close>
  cell and a column named \<^verbatim>\<open>Error\<close>.\<close>

definition spaced_sheet :: table where
  "spaced_sheet = \<lparr>header = [''Symbol''], rows = [[(''Symbol'', Text '' aapl'')]]\<rparr>"

definition clash_sheet :: table where
  "clash_sheet =
     \<lparr>header = [''Symbol'', ''_SYMBOL_UPPER_''],
      rows = [[(''Symbol'', Text '' aapl''), (''_SYMBOL_UPPER_'', Text ''x'')],
              [(''Symbol'', Text ''AAPL''), (''_SYMBOL_UPPER_'', Text ''y'')]]\<rparr>"

definition failed_sheet :: table where
  "failed_sheet =
     \<lparr>header = [''Symbol''],
      rows = [[(''Symbol'', Text '' msft'')], [(''Symbol'', Text ''aapl'')]]\<rparr>"




section \<open>Properties of the resolver\<close>

subsection \<open>Arrangements\<close>

lemma mset_arrange: "mset (arrange sched xs) = mset xs"
proof (induction sched arbitrary: xs)
  case Nil
  show ?case by simp
next
  case (Cons k ks)
  show ?case
  proof (cases "xs = []")
    case True
    then show ?thesis by simp
  next
    case False
    let ?i = "k mod length xs"
    from False have i: "?i < length xs" by simp
    have "mset xs = mset (take ?i xs @ xs ! ?i # drop (Suc ?i) xs)"
      using id_take_nth_drop [OF i] by simp
    then show ?thesis using False Cons.IH [of "take ?i xs @ drop (Suc ?i) xs"]
      by (simp add: Let_def)
  qed
qed



lemma length_arrange: "length (arrange sched xs) = length xs"
  by (rule mset_eq_length [OF mset_arrange])

lemma arrange_Nil: "arrange sched xs = [] \<longleftrightarrow> xs = []"
  using length_arrange [of sched xs] by (cases xs) auto

subsection \<open>Normalising and choosing\<close>

lemma set_normalize_loop:
  "set (normalize_loop lib ds acc) = set acc \<union> {t. \<exists>d \<in> set ds. to_datetime_utc lib d = Inr t}"
  by (induction ds arbitrary: acc) (auto split: sum.splits)

lemma map_At_instants: "NaT \<notin> set xs \<Longrightarrow> map At (instants xs) = xs"
  by (induction xs rule: instants.induct) auto

lemma set_instants: "set (instants xs) = {t. At t \<in> set xs}"
  by (induction xs rule: instants.induct) auto

lemma instants_Nil: "NaT \<notin> set xs \<Longrightarrow> instants xs = [] \<longleftrightarrow> xs = []"
  by (induction xs rule: instants.induct) auto

lemma sort_Nil: "sort (ts :: int list) = [] \<longleftrightarrow> ts = []"
  by (simp flip: length_0_conv)

lemma sorted_set_Nil: "sorted_set arr xs = [] \<longleftrightarrow> xs = []"
  by (auto simp: sorted_set_def arrange_Nil instants_Nil sort_Nil)

lemma clean_candidates_Nil: "clean_candidates lib arr [] = []"
  by (simp add: clean_candidates_def sorted_set_Nil)

lemma choose_next_None: "choose_next now clean = None \<longleftrightarrow> clean = []"
  by (simp add: choose_next_def Let_def)

lemma hd_sorted_Min: "sorted (xs :: int list) \<Longrightarrow> xs \<noteq> [] \<Longrightarrow> hd xs = Min (set xs)"
  by (cases xs) (auto intro!: Min_eqI [symmetric])

lemma last_sorted_Max: "sorted (xs :: int list) \<Longrightarrow> xs \<noteq> [] \<Longrightarrow> last xs = Max (set xs)"
  by (induction xs) (auto simp: max_def intro: order_trans)

lemma filter_not_before: "filter (not_before now) (map At ts) = map At (filter (\<lambda>t. t \<ge> now) ts)"
  by (induction ts) (auto simp: not_before_def)

lemma choose_next_future:
  assumes "sorted ts" and "\<exists>t \<in> set ts. t \<ge> now"
  shows "choose_next now (map At ts) = Some (At (Min {t \<in> set ts. t \<ge> now}))"
proof -
  let ?future = "filter (\<lambda>t. t \<ge> now) ts"
  from assms(2) have ne: "?future \<noteq> []" by (auto simp: filter_empty_conv)
  then have "ts \<noteq> []" by auto
  moreover have "sorted ?future" using assms(1) by (rule sorted_wrt_filter)
  then have "hd ?future = Min (set ?future)" using ne by (rule hd_sorted_Min)
  moreover have "set ?future = {t \<in> set ts. t \<ge> now}" by auto
  ultimately show ?thesis
    using ne by (simp add: choose_next_def Let_def filter_not_before hd_map)
qed

lemma choose_next_past:
  assumes "sorted ts" and "ts \<noteq> []" and "\<not> (\<exists>t \<in> set ts. t \<ge> now)"
  shows "choose_next now (map At ts) = Some (At (Max (set ts)))"
proof -
  from assms(3) have "filter (\<lambda>t. t \<ge> now) ts = []" by (auto simp: filter_empty_conv)
  then show ?thesis
    using assms(1,2)
    by (simp add: choose_next_def Let_def filter_not_before last_map last_sorted_Max)
qed

text \<open>When no candidate converts to \<^verbatim>\<open>NaT\<close>, the cleaned candidates are the instants
  of the candidates that convert, ascending and without duplicates, and the date
  chosen is the earliest instant not before \<^verbatim>\<open>now\<close>, or else the latest one.\<close>

lemma selection_without_NaT:
  assumes "\<forall>d \<in> set cands. to_datetime_utc lib d \<noteq> Inr NaT"
    and "ts = instants (clean_candidates lib arr cands)"
  shows "clean_candidates lib arr cands = map At ts"
    and "sorted ts" and "distinct ts"
    and "set ts = {t. \<exists>d \<in> set cands. to_datetime_utc lib d = Inr (At t)}"
    and "\<exists>t \<in> set ts. t \<ge> now \<Longrightarrow>
           choose_next now (clean_candidates lib arr cands) =
             Some (At (Min {t \<in> set ts. t \<ge> now}))"
    and "ts \<noteq> [] \<Longrightarrow> \<not> (\<exists>t \<in> set ts. t \<ge> now) \<Longrightarrow>
           choose_next now (clean_candidates lib arr cands) = Some (At (Max (set ts)))"
    and "ts = [] \<Longrightarrow> choose_next now (clean_candidates lib arr cands) = None"
proof -
  let ?loop = "normalize_loop lib cands []"
  from assms(1) have n: "NaT \<notin> set ?loop" by (auto simp: set_normalize_loop)
  then have c: "clean_candidates lib arr cands = map At (sort (remdups (instants ?loop)))"
    by (simp add: clean_candidates_def sorted_set_def)
  have i: "instants (map At xs) = xs" for xs by (induction xs) auto
  from c have ts: "ts = sort (remdups (instants ?loop))"
    by (simp add: assms(2) i)
  show m: "clean_candidates lib arr cands = map At ts" by (simp add: c ts)
  show s: "sorted ts" by (simp add: ts)
  show "distinct ts" by (simp add: ts)
  show "set ts = {t. \<exists>d \<in> set cands. to_datetime_utc lib d = Inr (At t)}"
    by (auto simp: ts set_instants set_normalize_loop)
  show "\<exists>t \<in> set ts. t \<ge> now \<Longrightarrow>
           choose_next now (clean_candidates lib arr cands) =
             Some (At (Min {t \<in> set ts. t \<ge> now}))"
    unfolding m using s by (rule choose_next_future)
  show "ts \<noteq> [] \<Longrightarrow> \<not> (\<exists>t \<in> set ts. t \<ge> now) \<Longrightarrow>
           choose_next now (clean_candidates lib arr cands) = Some (At (Max (set ts)))"
    unfolding m using s by (rule choose_next_past)
  show "ts = [] \<Longrightarrow> choose_next now (clean_candidates lib arr cands) = None"
    unfolding m by (simp add: choose_next_None)
qed

subsection \<open>The result record\<close>

lemma package_fields:
  "package lib arr now symbol cands used =
     (case choose_next now (clean_candidates lib arr cands) of
        Some next_dt \<Rightarrow>
          \<lparr>Symbol = symbol, NextEarningsDate = Some (stamp_isoformat lib next_dt),
           Source = Some (used_or used ''yfinance''),
           Details = Some (''candidates='' @ str_nat (length (clean_candidates lib arr cands))),
           Error = None\<rparr>
      | None \<Rightarrow>
          \<lparr>Symbol = symbol, NextEarningsDate = None, Source = None, Details = None,
           Error = Some ''No date found via yfinance endpoints''\<rparr>)"
  by (simp add: package_def initial_result_def Let_def split: option.splits)

lemma fetch_from_yf_raised:
  "Ticker w symbol = Inl e \<Longrightarrow>
   fetch_from_yf lib w symbol =
     \<lparr>Symbol = symbol, NextEarningsDate = None, Source = None, Details = None, Error = Some e\<rparr>"
  by (simp add: fetch_from_yf_def initial_result_def)

lemma fetch_from_yf_ticker:
  "Ticker w symbol = Inr t \<Longrightarrow>
   fetch_from_yf lib w symbol =
     package lib (arrangement w symbol) (utcnow w symbol) symbol
       (fst (strategies lib t)) (fst (snd (strategies lib t)))"
  by (simp add: fetch_from_yf_def split: prod.splits)


subsection \<open>The strategy tag\<close>

lemma try_get_earnings_dates_tag:
  "snd (try_get_earnings_dates lib t) = None \<and> fst (try_get_earnings_dates lib t) = []
   \<or> snd (try_get_earnings_dates lib t) = Some ''get_earnings_dates''"
  by (simp add: try_get_earnings_dates_def split: sum.splits obj.splits index.splits option.splits)

lemma try_calendar_tag:
  "try_calendar lib t st = st
   \<or> snd (try_calendar lib t st) = Some ''calendar:index''
   \<or> snd (try_calendar lib t st) = Some ''calendar:column''"
  by (simp add: try_calendar_def split: sum.splits obj.splits option.splits)

lemma strategies_tag:
  assumes "fst (strategies lib t) \<noteq> []"
  shows "fst (snd (strategies lib t)) \<in>
           {Some ''get_earnings_dates'', Some ''calendar:index'', Some ''calendar:column''}"
proof (cases "fst (try_get_earnings_dates lib t) = []")
  case False
  then show ?thesis
    using try_get_earnings_dates_tag [of lib t] by (auto simp: strategies_def Let_def)
next
  case True
  let ?st = "try_get_earnings_dates lib t"
  from True assms have ne: "fst (try_calendar lib t ?st) \<noteq> []"
    by (simp add: strategies_def Let_def)
  with True have "try_calendar lib t ?st \<noteq> ?st" by auto
  then show ?thesis
    using try_calendar_tag [of lib t ?st] True by (auto simp: strategies_def Let_def)
qed

lemma used_or_tag:
  "u \<in> {Some ''get_earnings_dates'', Some ''calendar:index'', Some ''calendar:column''} \<Longrightarrow>
   Some (used_or u ''yfinance'') = u"
  by (auto simp: used_or_def)

lemma try_get_earnings_dates_calendar:
  "try_get_earnings_dates lib (t\<lparr>calendar := c\<rparr>) = try_get_earnings_dates lib t"
  by (simp add: try_get_earnings_dates_def)

text \<open>Claim C2. For every symbol, the result \<^verbatim>\<open>fetch_from_yf\<close> returns keeps the symbol
  and has exactly one of \<^verbatim>\<open>NextEarningsDate\<close> and \<^verbatim>\<open>Error\<close> set. When \<^verbatim>\<open>Error\<close> is
  set, \<^verbatim>\<open>NextEarningsDate\<close>, \<^verbatim>\<open>Source\<close> and \<^verbatim>\<open>Details\<close> are all \<^verbatim>\<open>None\<close>; when the
  date is set, \<^verbatim>\<open>Source\<close> and \<^verbatim>\<open>Details\<close> are set too.\<close>

theorem C2_exactly_one_of_date_and_error:
  assumes "r = fetch_from_yf lib w symbol"
  shows "Symbol r = symbol
    \<and> (NextEarningsDate r = None) \<noteq> (Error r = None)
    \<and> (Error r \<noteq> None \<longrightarrow> NextEarningsDate r = None \<and> Source r = None \<and> Details r = None)
    \<and> (NextEarningsDate r \<noteq> None \<longrightarrow> Source r \<noteq> None \<and> Details r \<noteq> None)"
proof (cases "Ticker w symbol")
  case (Inl e)
  then show ?thesis unfolding assms by (simp add: fetch_from_yf_raised)
next
  case (Inr t)
  then show ?thesis
    unfolding assms by (simp add: fetch_from_yf_ticker package_fields split: option.splits)
qed

text \<open>\<^verbatim>\<open>MSFT\<close>, whose ticker cannot be created, and \<^verbatim>\<open>AAPL\<close>, which resolves.\<close>

theorem C2_exactly_one_of_date_and_error_witness:
  "fetch_from_yf example_library example_world ''MSFT'' =
     \<lparr>Symbol = ''MSFT'', NextEarningsDate = None, Source = None, Details = None,
      Error = Some ''X''\<rparr>
   \<and> Symbol (fetch_from_yf example_library example_world ''AAPL'') = ''AAPL''
   \<and> NextEarningsDate (fetch_from_yf example_library example_world ''AAPL'') =
       Some ''2024-06-15T00:00:00+00:00''
   \<and> Error (fetch_from_yf example_library example_world ''AAPL'') = None"
proof -
  have m: "fetch_from_yf example_library example_world ''MSFT'' =
     \<lparr>Symbol = ''MSFT'', NextEarningsDate = None, Source = None, Details = None,
      Error = Some ''X''\<rparr>"
    by (simp add: fetch_from_yf_def example_world_def example_Ticker_def initial_result_def)
  have a: "NextEarningsDate (fetch_from_yf example_library example_world ''AAPL'') =
       Some ''2024-06-15T00:00:00+00:00''"
    by code_simp
  show ?thesis
    using C2_exactly_one_of_date_and_error [OF refl, of example_library example_world "''AAPL''"] m a
    by simp
qed

text \<open>Claim C10. Whenever a resolution sets \<^verbatim>\<open>NextEarningsDate\<close>, the variable
  \<^verbatim>\<open>used\<close> is not \<^verbatim>\<open>None\<close>: it is one of \<^verbatim>\<open>get_earnings_dates\<close>, \<^verbatim>\<open>calendar:index\<close>
  and \<^verbatim>\<open>calendar:column\<close>, and it is the result's \<^verbatim>\<open>Source\<close>. The fallback label
  \<^verbatim>\<open>yfinance\<close> is never the \<^verbatim>\<open>Source\<close>: candidates are assigned only together with
  a tag.\<close>

theorem C10_strategy_tag_recorded:
  assumes "NextEarningsDate (fetch_from_yf lib w symbol) \<noteq> None"
  shows "\<exists>t. Ticker w symbol = Inr t
      \<and> fst (strategies lib t) \<noteq> []
      \<and> fst (snd (strategies lib t)) \<noteq> None
      \<and> Source (fetch_from_yf lib w symbol) = fst (snd (strategies lib t))
      \<and> Source (fetch_from_yf lib w symbol) \<in>
          {Some ''get_earnings_dates'', Some ''calendar:index'', Some ''calendar:column''}
      \<and> Source (fetch_from_yf lib w symbol) \<noteq> Some ''yfinance''"
proof (cases "Ticker w symbol")
  case (Inl e)
  with assms show ?thesis by (simp add: fetch_from_yf_raised)
next
  case (Inr t)
  let ?cands = "fst (strategies lib t)" and ?used = "fst (snd (strategies lib t))"
  have r: "fetch_from_yf lib w symbol =
      package lib (arrangement w symbol) (utcnow w symbol) symbol ?cands ?used"
    using Inr by (rule fetch_from_yf_ticker)
  from assms have some:
    "choose_next (utcnow w symbol) (clean_candidates lib (arrangement w symbol) ?cands) \<noteq> None"
    unfolding r package_fields by (auto split: option.splits)
  then have "clean_candidates lib (arrangement w symbol) ?cands \<noteq> []"
    by (simp add: choose_next_None)
  then have ne: "?cands \<noteq> []" by (auto simp: clean_candidates_Nil)
  then have tag: "?used \<in>
      {Some ''get_earnings_dates'', Some ''calendar:index'', Some ''calendar:column''}"
    by (rule strategies_tag)
  then have "Some (used_or ?used ''yfinance'') = ?used" by (rule used_or_tag)
  with some have src: "Source (fetch_from_yf lib w symbol) = ?used"
    unfolding r package_fields by (auto split: option.splits)
  from tag have "?used \<noteq> None" and "?used \<noteq> Some ''yfinance''" by auto
  with Inr ne tag src show ?thesis by simp
qed

text \<open>\<^verbatim>\<open>IBM\<close> resolves through the calendar's column.\<close>

theorem C10_strategy_tag_recorded_witness:
  "NextEarningsDate (fetch_from_yf example_library example_world ''IBM'') \<noteq> None
   \<and> Source (fetch_from_yf example_library example_world ''IBM'') = Some ''calendar:column''
   \<and> fst (snd (strategies example_library ibm_ticker)) = Some ''calendar:column''"
proof -
  have n: "NextEarningsDate (fetch_from_yf example_library example_world ''IBM'') \<noteq> None"
    by code_simp
  have t: "Ticker example_world ''IBM'' = Inr ibm_ticker"
    by (simp add: example_world_def example_Ticker_def)
  have u: "fst (snd (strategies example_library ibm_ticker)) = Some ''calendar:column''"
    by code_simp
  show ?thesis using C10_strategy_tag_recorded [OF n] n t u by auto
qed

text \<open>Claim C3, as amended. When the modern strategy yields at least one raw
  candidate, only \<^verbatim>\<open>get_earnings_dates\<close> is queried, the candidates are exactly
  the modern ones, the tag \<^verbatim>\<open>used\<close> is \<^verbatim>\<open>get_earnings_dates\<close>, and nothing depends
  on what the calendar would answer. The result's \<^verbatim>\<open>Source\<close> is that tag when a
  date is chosen, and \<^verbatim>\<open>None\<close> when the normaliser rejects every candidate.
  When the modern strategy yields nothing (for any ticker \<open>t'\<close>), the calendar is
  queried second and the candidates are the calendar's alone.\<close>

theorem C3_modern_strategy_precedence:
  assumes "Ticker w symbol = Inr t"
    and "fst (try_get_earnings_dates lib t) \<noteq> []"
  shows "queries_made lib w symbol = [Query_get_earnings_dates]
    \<and> fst (strategies lib t) = fst (try_get_earnings_dates lib t)
    \<and> fst (snd (strategies lib t)) = Some ''get_earnings_dates''
    \<and> strategies lib (t\<lparr>calendar := c\<rparr>) = strategies lib t
    \<and> (NextEarningsDate (fetch_from_yf lib w symbol) \<noteq> None \<longrightarrow>
          Source (fetch_from_yf lib w symbol) = Some ''get_earnings_dates'')
    \<and> (NextEarningsDate (fetch_from_yf lib w symbol) = None \<longrightarrow>
          Source (fetch_from_yf lib w symbol) = None)
    \<and> (fst (try_get_earnings_dates lib t') = [] \<longrightarrow>
          snd (snd (strategies lib t')) = [Query_get_earnings_dates, Query_calendar]
          \<and> fst (strategies lib t') =
              fst (try_calendar lib t' ([], snd (try_get_earnings_dates lib t'))))"
proof -
  let ?st = "try_get_earnings_dates lib t"
  from assms(2) have tag: "snd ?st = Some ''get_earnings_dates''"
    using try_get_earnings_dates_tag [of lib t] by auto
  from assms(2) have s: "strategies lib t = (fst ?st, snd ?st, [Query_get_earnings_dates])"
    by (simp add: strategies_def Let_def)
  have q: "queries_made lib w symbol = [Query_get_earnings_dates]"
    using assms(1) s by (simp add: queries_made_def)
  have c: "strategies lib (t\<lparr>calendar := c\<rparr>) = strategies lib t"
    using assms(2) by (simp add: strategies_def Let_def try_get_earnings_dates_calendar)
  have r: "fetch_from_yf lib w symbol =
      package lib (arrangement w symbol) (utcnow w symbol) symbol (fst ?st)
        (Some ''get_earnings_dates'')"
    using assms(1) s tag by (simp add: fetch_from_yf_ticker)
  have y: "NextEarningsDate (fetch_from_yf lib w symbol) \<noteq> None \<longrightarrow>
      Source (fetch_from_yf lib w symbol) = Some ''get_earnings_dates''"
    unfolding r package_fields by (simp add: used_or_def split: option.splits)
  have n: "NextEarningsDate (fetch_from_yf lib w symbol) = None \<longrightarrow>
      Source (fetch_from_yf lib w symbol) = None"
    unfolding r package_fields by (simp split: option.splits)
  have o: "fst (try_get_earnings_dates lib t') = [] \<longrightarrow>
      snd (snd (strategies lib t')) = [Query_get_earnings_dates, Query_calendar]
      \<and> fst (strategies lib t') =
          fst (try_calendar lib t' ([], snd (try_get_earnings_dates lib t')))"
  proof
    assume e: "fst (try_get_earnings_dates lib t') = []"
    then have "try_get_earnings_dates lib t' = ([], snd (try_get_earnings_dates lib t'))"
      by (cases "try_get_earnings_dates lib t'") simp
    with e show "snd (snd (strategies lib t')) = [Query_get_earnings_dates, Query_calendar]
      \<and> fst (strategies lib t') =
          fst (try_calendar lib t' ([], snd (try_get_earnings_dates lib t')))"
      by (simp add: strategies_def Let_def)
  qed
  from q s tag c y n o show ?thesis by simp
qed

text \<open>\<^verbatim>\<open>AAPL\<close> resolves through the modern strategy; for \<^verbatim>\<open>IBM\<close> both are queried.\<close>

theorem C3_modern_strategy_precedence_witness:
  "fst (try_get_earnings_dates example_library aapl_ticker) =
     [Stamp 1718409600000000, Stamp 1704844800000000, Stamp 1718409600000000]
   \<and> queries_made example_library example_world ''AAPL'' = [Query_get_earnings_dates]
   \<and> Source (fetch_from_yf example_library example_world ''AAPL'') = Some ''get_earnings_dates''
   \<and> snd (snd (strategies example_library ibm_ticker)) =
       [Query_get_earnings_dates, Query_calendar]"
proof -
  have t: "Ticker example_world ''AAPL'' = Inr aapl_ticker"
    by (simp add: example_world_def example_Ticker_def)
  have m: "fst (try_get_earnings_dates example_library aapl_ticker) =
     [Stamp 1718409600000000, Stamp 1704844800000000, Stamp 1718409600000000]"
    by code_simp
  then have ne: "fst (try_get_earnings_dates example_library aapl_ticker) \<noteq> []"
    by simp
  have d: "NextEarningsDate (fetch_from_yf example_library example_world ''AAPL'') \<noteq> None"
    by code_simp
  have i: "fst (try_get_earnings_dates example_library ibm_ticker) = []"
    by code_simp
  show ?thesis
    using C3_modern_strategy_precedence [OF t ne, of _ ibm_ticker] m d i by simp
qed

text \<open>Claim C3 as stated fails for \<^verbatim>\<open>FAR\<close>: the modern strategy yields one raw
  candidate, the calendar is not consulted, the candidate does not convert, and the
  result is a failure whose \<^verbatim>\<open>Source\<close> is \<^verbatim>\<open>None\<close>.\<close>

theorem C3_counterexample:
  "Ticker example_world ''FAR'' = Inr far_ticker
   \<and> fst (try_get_earnings_dates example_library far_ticker) = [Stamp 32503680000000000]
   \<and> queries_made example_library example_world ''FAR'' = [Query_get_earnings_dates]
   \<and> fetch_from_yf example_library example_world ''FAR'' =
       \<lparr>Symbol = ''FAR'', NextEarningsDate = None, Source = None, Details = None,
        Error = Some ''No date found via yfinance endpoints''\<rparr>
   \<and> Source (fetch_from_yf example_library example_world ''FAR'') \<noteq> Some ''get_earnings_dates''"
proof -
  have t: "Ticker example_world ''FAR'' = Inr far_ticker"
    by (simp add: example_world_def example_Ticker_def)
  have m: "fst (try_get_earnings_dates example_library far_ticker) = [Stamp 32503680000000000]"
    by code_simp
  have q: "queries_made example_library example_world ''FAR'' = [Query_get_earnings_dates]"
    by code_simp
  have r: "fetch_from_yf example_library example_world ''FAR'' =
       \<lparr>Symbol = ''FAR'', NextEarningsDate = None, Source = None, Details = None,
        Error = Some ''No date found via yfinance endpoints''\<rparr>"
    by code_simp
  from t m q r show ?thesis by simp
qed

text \<open>Claim C1 (the cleaned candidates are ascending and without duplicates; the date
  chosen is the earliest instant not before \<^verbatim>\<open>now\<close>, else the latest instant, and
  with no candidate left the resolution fails), on the symbol \<^verbatim>\<open>VOID\<close>, whose only
  candidate is \<^verbatim>\<open>NaT\<close>: the conversion returns \<^verbatim>\<open>NaT\<close> without raising, the
  cleaned candidates are \<^verbatim>\<open>[NaT]\<close> and hold no instant, yet the resolution does
  not fail: it chooses \<^verbatim>\<open>NaT\<close> and reports the date \<^verbatim>\<open>NaT\<close>.\<close>

theorem C1_NaT_is_selected:
  "Ticker example_world ''VOID'' = Inr void_ticker
   \<and> fst (strategies example_library void_ticker) = [Not_a_time]
   \<and> to_datetime_utc example_library Not_a_time = Inr NaT
   \<and> clean_candidates example_library (arrangement example_world ''VOID'') [Not_a_time] = [NaT]
   \<and> instants [NaT] = []
   \<and> choose_next (utcnow example_world ''VOID'') [NaT] = Some NaT
   \<and> fetch_from_yf example_library example_world ''VOID'' =
       \<lparr>Symbol = ''VOID'', NextEarningsDate = Some ''NaT'',
        Source = Some ''get_earnings_dates'', Details = Some ''candidates=1'',
        Error = None\<rparr>"
proof -
  have t: "Ticker example_world ''VOID'' = Inr void_ticker"
    by (simp add: example_world_def example_Ticker_def)
  have s: "fst (strategies example_library void_ticker) = [Not_a_time]"
    by code_simp
  have c: "to_datetime_utc example_library Not_a_time = Inr NaT"
    by (simp add: example_library_def)
  have k: "clean_candidates example_library (arrangement example_world ''VOID'') [Not_a_time] =
      [NaT]"
    by code_simp
  have n: "choose_next (utcnow example_world ''VOID'') [NaT] = Some NaT"
    by (simp add: choose_next_def not_before_def)
  have r: "fetch_from_yf example_library example_world ''VOID'' =
       \<lparr>Symbol = ''VOID'', NextEarningsDate = Some ''NaT'',
        Source = Some ''get_earnings_dates'', Details = Some ''candidates=1'',
        Error = None\<rparr>"
    by code_simp
  from t s c k n r show ?thesis by simp
qed

text \<open>Claim C4 (a candidate that cannot be parsed as a date, such as the empty
  string or \<^verbatim>\<open>N/A\<close>, is dropped and does not appear among the cleaned
  candidates), on the claim's examples and on the symbol \<^verbatim>\<open>GAP\<close>: \<^verbatim>\<open>N/A\<close> raises
  and is dropped, but the empty string and \<^verbatim>\<open>NaT\<close> convert to \<^verbatim>\<open>NaT\<close> without
  raising and stay in the list; for \<^verbatim>\<open>GAP\<close>, with one date and one \<^verbatim>\<open>NaT\<close>, the
  result counts two candidates.\<close>

theorem C4_NaT_stays_among_candidates:
  "to_datetime_utc example_library (Str ''N/A'') =
     Inl ''Unknown datetime string format, unable to parse: N/A''
   \<and> normalize_loop example_library [Str ''N/A''] [] = []
   \<and> to_datetime_utc example_library (Str []) = Inr NaT
   \<and> normalize_loop example_library [Str []] [] = [NaT]
   \<and> clean_candidates example_library [] [Str []] = [NaT]
   \<and> fst (strategies example_library gap_ticker) = [Stamp 1718409600000000, Not_a_time]
   \<and> normalize_loop example_library [Stamp 1718409600000000, Not_a_time] [] =
       [At 1718409600000000, NaT]
   \<and> clean_candidates example_library (arrangement example_world ''GAP'')
       [Stamp 1718409600000000, Not_a_time] = [At 1718409600000000, NaT]
   \<and> fetch_from_yf example_library example_world ''GAP'' =
       \<lparr>Symbol = ''GAP'', NextEarningsDate = Some ''2024-06-15T00:00:00+00:00'',
        Source = Some ''get_earnings_dates'', Details = Some ''candidates=2'',
        Error = None\<rparr>"
proof -
  have a: "to_datetime_utc example_library (Str ''N/A'') =
     Inl ''Unknown datetime string format, unable to parse: N/A''"
    by (simp add: example_library_def example_dates_def)
  have b: "normalize_loop example_library [Str ''N/A''] [] = []"
    by (simp add: a)
  have c: "to_datetime_utc example_library (Str []) = Inr NaT"
    by (simp add: example_library_def)
  have d: "normalize_loop example_library [Str []] [] = [NaT]"
    by (simp add: c)
  have e: "clean_candidates example_library [] [Str []] = [NaT]"
    by code_simp
  have f: "fst (strategies example_library gap_ticker) = [Stamp 1718409600000000, Not_a_time]"
    by code_simp
  have g: "normalize_loop example_library [Stamp 1718409600000000, Not_a_time] [] =
       [At 1718409600000000, NaT]"
    by code_simp
  have h: "clean_candidates example_library (arrangement example_world ''GAP'')
       [Stamp 1718409600000000, Not_a_time] = [At 1718409600000000, NaT]"
    by code_simp
  have r: "fetch_from_yf example_library example_world ''GAP'' =
       \<lparr>Symbol = ''GAP'', NextEarningsDate = Some ''2024-06-15T00:00:00+00:00'',
        Source = Some ''get_earnings_dates'', Details = Some ''candidates=2'',
        Error = None\<rparr>"
    by code_simp
  from a b c d e f g h r show ?thesis by simp
qed

section \<open>Properties of the script body\<close>

subsection \<open>Cleaning the symbols\<close>











subsection \<open>The thread pool\<close>









subsection \<open>The merge\<close>
















subsection \<open>The run\<close>





text \<open>The three input errors stop the run with one message and nothing submitted;
  otherwise the cleaned symbols are submitted.\<close>

lemma run_stops:
  "run lib w sched (Inl e) =
     \<lparr>messages = [Error_box (''Failed to read Excel: '' @ e)], submitted = [],
      outcome = Stopped\<rparr>"
  "''Symbol'' \<notin> set (header raw) \<Longrightarrow>
   run lib w sched (Inr raw) =
     \<lparr>messages = [Error_box ''The uploaded file must contain a 'Symbol' column.''],
      submitted = [], outcome = Stopped\<rparr>"
  "''Symbol'' \<in> set (header raw) \<Longrightarrow> symbols_of lib raw = [] \<Longrightarrow>
   run lib w sched (Inr raw) =
     \<lparr>messages = [Warning_box ''No symbols found after cleaning.''],
      submitted = [], outcome = Stopped\<rparr>"
  by (simp_all add: run_def)

subsection \<open>The claims on the script body\<close>








text \<open>Claim C6 (the merged table keeps the uploaded rows in order and every
  uploaded column unchanged, only adding the result columns, and rows with the
  same cleaned symbol carry the same result), on a sheet with a column named
  \<^verbatim>\<open>_SYMBOL_UPPER_\<close> and two rows whose symbols differ by case and a leading space:
  the merged table has lost the uploaded column, and the two rows, whose cleaned
  symbol is the same, carry different result cells.\<close>

theorem C6_uploaded_column_is_lost:
  "header clash_sheet = [''Symbol'', ''_SYMBOL_UPPER_'']
   \<and> clean_symbol (Text '' aapl'') = ''AAPL''
   \<and> clean_symbol (Text ''AAPL'') = ''AAPL''
   \<and> outcome (run example_library example_world [] (Inr clash_sheet)) =
       Shown \<lparr>header = [''Symbol'', ''NextEarningsDate'', ''Source'', ''Details'', ''Error''],
              rows =
                [[(''Symbol'', Text '' aapl''), (''NextEarningsDate'', NaN), (''Source'', NaN),
                  (''Details'', NaN), (''Error'', NaN)],
                 [(''Symbol'', Text ''AAPL''),
                  (''NextEarningsDate'', Text ''2024-06-15T00:00:00+00:00''),
                  (''Source'', Text ''get_earnings_dates''),
                  (''Details'', Text ''candidates=2''), (''Error'', NaN)]]\<rparr>"
proof -
  have h: "header clash_sheet = [''Symbol'', ''_SYMBOL_UPPER_'']"
    by (simp add: clash_sheet_def)
  have c1: "clean_symbol (Text '' aapl'') = ''AAPL''"
    and c2: "clean_symbol (Text ''AAPL'') = ''AAPL''"
    by code_simp+
  have o: "outcome (run example_library example_world [] (Inr clash_sheet)) =
       Shown \<lparr>header = [''Symbol'', ''NextEarningsDate'', ''Source'', ''Details'', ''Error''],
              rows =
                [[(''Symbol'', Text '' aapl''), (''NextEarningsDate'', NaN), (''Source'', NaN),
                  (''Details'', NaN), (''Error'', NaN)],
                 [(''Symbol'', Text ''AAPL''),
                  (''NextEarningsDate'', Text ''2024-06-15T00:00:00+00:00''),
                  (''Source'', Text ''get_earnings_dates''),
                  (''Details'', Text ''candidates=2''), (''Error'', NaN)]]\<rparr>"
    by code_simp
  from h c1 c2 o show ?thesis by simp
qed

text \<open>Claim C8 (input errors stop the run before any fetch; a resolution that fails
  does not stop the run and shows as the \<^verbatim>\<open>Error\<close> value of its row), on a sheet
  whose failing symbol has a leading space: \<^verbatim>\<open>MSFT\<close> is submitted and its
  resolution fails with the message \<^verbatim>\<open>X\<close>, the run goes on and shows the merged
  table, but the row of that symbol is shown with an absent \<^verbatim>\<open>Error\<close>: the failure
  appears in no row.\<close>

theorem C8_failure_of_padded_symbol_is_not_shown:
  "submitted (run example_library example_world [] (Inr failed_sheet)) = [''MSFT'', ''AAPL'']
   \<and> fetch_from_yf example_library example_world ''MSFT'' =
       \<lparr>Symbol = ''MSFT'', NextEarningsDate = None, Source = None, Details = None,
        Error = Some ''X''\<rparr>
   \<and> join_key [(''Symbol'', Text '' msft'')] = '' MSFT''
   \<and> outcome (run example_library example_world [] (Inr failed_sheet)) =
       Shown \<lparr>header = [''Symbol'', ''NextEarningsDate'', ''Source'', ''Details'', ''Error''],
              rows =
                [[(''Symbol'', Text '' msft''), (''NextEarningsDate'', NaN), (''Source'', NaN),
                  (''Details'', NaN), (''Error'', NaN)],
                 [(''Symbol'', Text ''aapl''),
                  (''NextEarningsDate'', Text ''2024-06-15T00:00:00+00:00''),
                  (''Source'', Text ''get_earnings_dates''),
                  (''Details'', Text ''candidates=2''), (''Error'', NaN)]]\<rparr>"
proof -
  have u: "submitted (run example_library example_world [] (Inr failed_sheet)) =
      [''MSFT'', ''AAPL'']"
    by code_simp
  have f: "fetch_from_yf example_library example_world ''MSFT'' =
       \<lparr>Symbol = ''MSFT'', NextEarningsDate = None, Source = None, Details = None,
        Error = Some ''X''\<rparr>"
    by code_simp
  have j: "join_key [(''Symbol'', Text '' msft'')] = '' MSFT''"
    by code_simp
  have o: "outcome (run example_library example_world [] (Inr failed_sheet)) =
       Shown \<lparr>header = [''Symbol'', ''NextEarningsDate'', ''Source'', ''Details'', ''Error''],
              rows =
                [[(''Symbol'', Text '' msft''), (''NextEarningsDate'', NaN), (''Source'', NaN),
                  (''Details'', NaN), (''Error'', NaN)],
                 [(''Symbol'', Text ''aapl''),
                  (''NextEarningsDate'', Text ''2024-06-15T00:00:00+00:00''),
                  (''Source'', Text ''get_earnings_dates''),
                  (''Details'', Text ''candidates=2''), (''Error'', NaN)]]\<rparr>"
    by code_simp
  from u f j o show ?thesis by simp
qed

text \<open>Claim C5 on a sheet whose only symbol has a leading space: the symbol is
  cleaned to \<^verbatim>\<open>AAPL\<close>, which is submitted and resolves, but the join key of the row
  keeps the space, matches no result, and the row is shown with absent cells.\<close>

theorem C5_join_key_is_not_trimmed:
  "clean_symbol (Text '' aapl'') = ''AAPL''
   \<and> join_key [(''Symbol'', Text '' aapl'')] = '' AAPL''
   \<and> submitted (run example_library example_world [] (Inr spaced_sheet)) = [''AAPL'']
   \<and> result_cells (fetch_from_yf example_library example_world ''AAPL'') =
       [(''NextEarningsDate'', Text ''2024-06-15T00:00:00+00:00''),
        (''Source'', Text ''get_earnings_dates''),
        (''Details'', Text ''candidates=2''), (''Error'', NaN)]
   \<and> outcome (run example_library example_world [] (Inr spaced_sheet)) =
       Shown \<lparr>header = [''Symbol'', ''NextEarningsDate'', ''Source'', ''Details'', ''Error''],
              rows =
                [[(''Symbol'', Text '' aapl''), (''NextEarningsDate'', NaN), (''Source'', NaN),
                  (''Details'', NaN), (''Error'', NaN)]]\<rparr>"
proof -
  have c: "clean_symbol (Text '' aapl'') = ''AAPL''"
    by code_simp
  have j: "join_key [(''Symbol'', Text '' aapl'')] = '' AAPL''"
    by code_simp
  have s: "submitted (run example_library example_world [] (Inr spaced_sheet)) = [''AAPL'']"
    by code_simp
  have r: "result_cells (fetch_from_yf example_library example_world ''AAPL'') =
       [(''NextEarningsDate'', Text ''2024-06-15T00:00:00+00:00''),
        (''Source'', Text ''get_earnings_dates''),
        (''Details'', Text ''candidates=2''), (''Error'', NaN)]"
    by code_simp
  have o: "outcome (run example_library example_world [] (Inr spaced_sheet)) =
       Shown \<lparr>header = [''Symbol'', ''NextEarningsDate'', ''Source'', ''Details'', ''Error''],
              rows =
                [[(''Symbol'', Text '' aapl''), (''NextEarningsDate'', NaN), (''Source'', NaN),
                  (''Details'', NaN), (''Error'', NaN)]]\<rparr>"
    by code_simp
  from c j s r o show ?thesis by simp
qed
end
